theory Spec2Isabelle
  imports Main "HOL-Library.Sublist" "HOL-Library.Word" "HOL-Library.Signed_Division"
begin

unbundle bit_operations_syntax

section \<open>Package models\<close>

text \<open>
  The two structs of package models. A \<open>time.Time\<close> is a number, 0 the zero time; a
  Go slice is \<open>None\<close> when it is nil and \<open>Some xs\<close> otherwise, so that the empty slice
  \<open>Some []\<close> and the nil slice differ as they do in Go.
\<close>

type_synonym time = nat

record SubscriberType =
  ID :: nat
  SubscriberID :: nat
  Name :: string
  CreatedAt :: time
  UpdatedAt :: time

record Subscriber =
  ID :: nat
  Email :: string
  Name :: string
  SubscriberTypes :: "SubscriberType list option"
  CreatedAt :: time
  UpdatedAt :: time

section \<open>HTTP responses\<close>

text \<open>
  A handler answers with \<open>c.Status(code).JSON(fiber.Map{...})\<close>. The JSON object is kept
  by its single key: \<open>{"error": msg}\<close>, \<open>{"message": msg}\<close> or \<open>{"token": t}\<close>;
  \<open>c.JSON(subscriber)\<close> sends the subscriber, \<open>c.SendStatus\<close> no body.
  A middleware either answers or hands the request on with \<open>c.Next()\<close>.
\<close>

datatype payload =
  ErrorJSON string | MessageJSON string | TokenJSON string | SubscriberJSON Subscriber
  | NoBody

record response =
  Status :: nat
  Body :: payload

datatype handled = Respond response | Next

abbreviation StatusOK :: nat where "StatusOK \<equiv> 200"
abbreviation StatusCreated :: nat where "StatusCreated \<equiv> 201"
abbreviation StatusBadRequest :: nat where "StatusBadRequest \<equiv> 400"
abbreviation StatusUnauthorized :: nat where "StatusUnauthorized \<equiv> 401"
abbreviation StatusNotFound :: nat where "StatusNotFound \<equiv> 404"
abbreviation StatusInternalServerError :: nat where "StatusInternalServerError \<equiv> 500"

definition JSON_error :: "nat \<Rightarrow> string \<Rightarrow> response" where
  "JSON_error st msg = \<lparr>Status = st, Body = ErrorJSON msg\<rparr>"

section \<open>The key-value store (package redisclient)\<close>

text \<open>
  The Redis server behind the global client \<open>Rdb\<close> is a map from keys to a stored string
  and the expiration it was stored with (in seconds, 0 for none; the passing of time is
  not modelled, an expired key is an absent key). Every call of the client can fail (the
  connection, a timeout): \<open>faults\<close> is the schedule of these failures, one flag for each
  call to come, in order; a call made on the empty schedule works. A call that fails
  leaves the stored data as it was.
\<close>

type_synonym duration = nat

datatype redis_error = RedisNil | RedisFault

record redis =
  kv :: "string \<rightharpoonup> (string \<times> duration)"
  faults :: "bool list"

definition next_fault :: "redis \<Rightarrow> bool \<times> redis" where
  "next_fault r = (case faults r of [] \<Rightarrow> (False, r) | f # fs \<Rightarrow> (f, r\<lparr>faults := fs\<rparr>))"

text \<open>\<open>call_fails fs n\<close>: the call number \<open>n\<close> from now (0 the next one) fails.\<close>

definition call_fails :: "bool list \<Rightarrow> nat \<Rightarrow> bool" where
  "call_fails fs n = (n < length fs \<and> fs ! n)"

text \<open>\<open>SetValue\<close>: \<open>Rdb.Set(Ctx, key, value, expiration).Err()\<close>.\<close>

definition SetValue :: "string \<Rightarrow> string \<Rightarrow> duration \<Rightarrow> redis \<Rightarrow> redis_error option \<times> redis" where
  "SetValue key val expiration r =
     (let (f, r') = next_fault r in
      if f then (Some RedisFault, r')
      else (None, r'\<lparr>kv := (kv r')(key \<mapsto> (val, expiration))\<rparr>))"

text \<open>
  \<open>GetValue\<close>: \<open>Rdb.Get(Ctx, key).Result()\<close>, the pair of Go's \<open>(string, error)\<close>.
  A key that is not there gives the empty string and the error \<open>redis.Nil\<close>.
\<close>

definition GetValue :: "string \<Rightarrow> redis \<Rightarrow> (string \<times> redis_error option) \<times> redis" where
  "GetValue key r =
     (let (f, r') = next_fault r in
      if f then (('''', Some RedisFault), r')
      else (case kv r' key of
              None \<Rightarrow> (('''', Some RedisNil), r')
            | Some (v, _) \<Rightarrow> ((v, None), r')))"

text \<open>\<open>DeleteKey\<close>: \<open>Rdb.Del(Ctx, key).Err()\<close>; deleting an absent key is no error.\<close>

definition DeleteKey :: "string \<Rightarrow> redis \<Rightarrow> redis_error option \<times> redis" where
  "DeleteKey key r =
     (let (f, r') = next_fault r in
      if f then (Some RedisFault, r')
      else (None, r'\<lparr>kv := (kv r')(key := None)\<rparr>))"

section \<open>The environment of one handler execution\<close>

text \<open>
  What a handler reads from outside the two stores: the environment variable with the
  signing secret, the JWT library (\<open>jwt.ParseWithClaims\<close> gives the claims of a token whose
  signature and expiry verify under the secret, \<open>SignedString\<close> signs claims), the clock,
  the system's random source (\<open>crypto/rand.Read\<close>, \<open>None\<close> when it fails) and the base64
  encoder. They are parameters: the theorems hold for every library and every reading.
\<close>

datatype claim = ClaimString string | ClaimNumber int | ClaimBool bool | ClaimNull

type_synonym MapClaims = "string \<rightharpoonup> claim"

record env =
  JWT_USER_SECRET_KEY :: string
  ParseWithClaims :: "string \<Rightarrow> string \<Rightarrow> MapClaims option"
  SignedString :: "MapClaims \<Rightarrow> string \<Rightarrow> string option"
  Now :: int
  UnixNano :: "64 word"
  RandRead :: "nat \<Rightarrow> 8 word list option"
  EncodeToString :: "8 word list \<Rightarrow> string"

text \<open>\<open>rand.Read(b)\<close> fills all of \<open>b\<close> or returns an error.\<close>

definition rand_Read :: "env \<Rightarrow> nat \<Rightarrow> 8 word list option" where
  "rand_Read e n = (case RandRead e n of None \<Rightarrow> None | Some bs \<Rightarrow> Some (take n (bs @ replicate n 0)))"

section \<open>Package middleware: RequireJWT and GenerateJWT\<close>

definition TrimPrefix :: "string \<Rightarrow> string \<Rightarrow> string" where
  "TrimPrefix s p = (if prefix p s then drop (length p) s else s)"

definition user_secret :: "env \<Rightarrow> string" where
  "user_secret e = (let secret = JWT_USER_SECRET_KEY e in if secret = '''' then ''devsecret'' else secret)"

definition RequireJWT :: "env \<Rightarrow> string \<Rightarrow> redis \<Rightarrow> handled \<times> redis" where
  "RequireJWT e authHeader r =
     (if authHeader = '''' then
        (Respond (JSON_error StatusUnauthorized ''Missing Authorization header''), r)
      else
        let tokenString = TrimPrefix authHeader ''Bearer '' in
        if tokenString = authHeader then
          (Respond (JSON_error StatusUnauthorized ''Invalid token format''), r)
        else
          (case ParseWithClaims e tokenString (user_secret e) of
             None \<Rightarrow> (Respond (JSON_error StatusUnauthorized ''Invalid or expired token''), r)
           | Some claims \<Rightarrow>
               (case claims ''session_key'' of
                  Some (ClaimString sessionKey) \<Rightarrow>
                    (let ((sessionVal, err), r') = GetValue (''session:'' @ sessionKey) r in
                     if err \<noteq> None then
                       (Respond (JSON_error StatusUnauthorized ''Session not found or expired''), r')
                     else if sessionVal = '''' then
                       (Respond (JSON_error StatusUnauthorized ''Session invalid or not found''), r')
                     else (Next, r'))
                | _ \<Rightarrow> (Respond (JSON_error StatusUnauthorized ''Session key missing in token''), r))))"

text \<open>\<open>GenerateJWT\<close>: the pair of Go's \<open>(string, error)\<close>, the error kept as a flag.\<close>

definition GenerateJWT :: "env \<Rightarrow> string \<Rightarrow> string \<times> bool" where
  "GenerateJWT e sessionKey =
     (let now = Now e;
          exp = now + 24 * 3600;
          claims = [''session_key'' \<mapsto> ClaimString sessionKey,
                    ''exp'' \<mapsto> ClaimNumber exp,
                    ''iat'' \<mapsto> ClaimNumber now]
      in case SignedString e claims (user_secret e) of
           None \<Rightarrow> ('''', True)
         | Some ss \<Rightarrow> (ss, False))"

section \<open>Package handlers: the sign-in flow\<close>

definition signInCodeKey :: "string \<Rightarrow> string" where
  "signInCodeKey email = ''signin_code:'' @ email"

record verify_req =
  Email :: string
  Code :: string

text \<open>
  \<open>randomToken\<close>: the error of \<open>rand.Read\<close> is dropped, the buffer then keeps its zeros.
\<close>

definition randomToken :: "env \<Rightarrow> nat \<Rightarrow> string" where
  "randomToken e n =
     (let raw = (case rand_Read e n of None \<Rightarrow> replicate n 0 | Some bs \<Rightarrow> bs)
      in EncodeToString e raw)"

text \<open>
  \<open>VerifySignIn\<close>. The request body is given as \<open>c.BodyParser\<close> left it: \<open>None\<close> when it
  could not be parsed, a field that the JSON object lacks is the empty string.
\<close>

definition VerifySignIn :: "env \<Rightarrow> verify_req option \<Rightarrow> redis \<Rightarrow> response \<times> redis" where
  "VerifySignIn e parsed r =
     (case parsed of
        None \<Rightarrow> (JSON_error StatusBadRequest ''Invalid request body'', r)
      | Some req \<Rightarrow>
          if verify_req.Email req = '''' \<or> Code req = '''' then
            (JSON_error StatusBadRequest ''Missing email or code'', r)
          else
            let ((storedCode, err), r1) = GetValue (signInCodeKey (verify_req.Email req)) r in
            if err \<noteq> None \<or> storedCode = '''' then
              (JSON_error StatusBadRequest ''No sign-in code found or code expired'', r1)
            else if storedCode \<noteq> Code req then
              (JSON_error StatusUnauthorized ''Invalid code'', r1)
            else
              let (_, r2) = DeleteKey (signInCodeKey (verify_req.Email req)) r1;
                  sessionID = randomToken e 16;
                  userProfile = ''{\"email\":\"'' @ verify_req.Email req @ ''\"}'';
                  (err, r3) = SetValue (''session:'' @ sessionID) userProfile (24 * 3600) r2
              in
              if err \<noteq> None then
                (JSON_error StatusInternalServerError ''Could not store session'', r3)
              else
                let (token, err) = GenerateJWT e sessionID in
                if err then
                  (JSON_error StatusInternalServerError ''Could not create token'', r3)
                else (\<lparr>Status = StatusOK, Body = TokenJSON token\<rparr>, r3))"

subsection \<open>The code generator\<close>


definition digit_char :: "nat \<Rightarrow> char" where
  "digit_char d = ''0123456789'' ! d"

function itoa :: "nat \<Rightarrow> string" where
  "itoa n = (if n < 10 then [digit_char n] else itoa (n div 10) @ [digit_char (n mod 10)])"
  by pat_completeness auto
termination
  by (relation "measure id") auto

declare itoa.simps [simp del]

definition pad_zeros :: "nat \<Rightarrow> string \<Rightarrow> string" where
  "pad_zeros w s = replicate (w - length s) (CHR ''0'') @ s"

definition Sprintf_06d :: "int \<Rightarrow> string" where
  "Sprintf_06d n =
     (if n < 0 then CHR ''-'' # pad_zeros 5 (itoa (nat (- n)))
      else pad_zeros 6 (itoa (nat n)))"

definition generateSixDigitCode :: "env \<Rightarrow> string" where
  "generateSixDigitCode e =
     (case rand_Read e 3 of
        None \<Rightarrow>
          (let now = sint (UnixNano e)
           in Sprintf_06d (now smod 1000000))
      | Some b \<Rightarrow>
          (let num = (push_bit 16 (uint (b ! 0)) OR push_bit 8 (uint (b ! 1)) OR uint (b ! 2)) smod 1000000
           in Sprintf_06d num))"

definition is_digit :: "char \<Rightarrow> bool" where
  "is_digit c = (c \<in> set ''0123456789'')"

definition six_digits :: "string \<Rightarrow> bool" where
  "six_digits s = (length s = 6 \<and> list_all is_digit s)"


subsection \<open>VerifySignIn call by call, and two callers interleaved\<close>


datatype vstate = AtLookup | AtDelete | AtStore | AtSign string | Finished response

definition verify_step :: "env \<Rightarrow> verify_req option \<Rightarrow> vstate \<Rightarrow> redis \<Rightarrow> vstate \<times> redis" where
  "verify_step e parsed st r =
     (case parsed of
        None \<Rightarrow> (Finished (JSON_error StatusBadRequest ''Invalid request body''), r)
      | Some req \<Rightarrow>
         (case st of
            AtLookup \<Rightarrow>
              if verify_req.Email req = '''' \<or> Code req = '''' then
                (Finished (JSON_error StatusBadRequest ''Missing email or code''), r)
              else
                let ((storedCode, err), r1) = GetValue (signInCodeKey (verify_req.Email req)) r in
                if err \<noteq> None \<or> storedCode = '''' then
                  (Finished (JSON_error StatusBadRequest ''No sign-in code found or code expired''), r1)
                else if storedCode \<noteq> Code req then
                  (Finished (JSON_error StatusUnauthorized ''Invalid code''), r1)
                else (AtDelete, r1)
          | AtDelete \<Rightarrow>
              let (_, r2) = DeleteKey (signInCodeKey (verify_req.Email req)) r in (AtStore, r2)
          | AtStore \<Rightarrow>
              let sessionID = randomToken e 16;
                  userProfile = ''{\"email\":\"'' @ verify_req.Email req @ ''\"}'';
                  (err, r3) = SetValue (''session:'' @ sessionID) userProfile (24 * 3600) r
              in
              if err \<noteq> None then
                (Finished (JSON_error StatusInternalServerError ''Could not store session''), r3)
              else (AtSign sessionID, r3)
          | AtSign sessionID \<Rightarrow>
              let (token, err) = GenerateJWT e sessionID in
              if err then
                (Finished (JSON_error StatusInternalServerError ''Could not create token''), r)
              else (Finished \<lparr>Status = StatusOK, Body = TokenJSON token\<rparr>, r)
          | Finished resp \<Rightarrow> (Finished resp, r)))"

fun verify_steps :: "nat \<Rightarrow> env \<Rightarrow> verify_req option \<Rightarrow> vstate \<times> redis \<Rightarrow> vstate \<times> redis" where
  "verify_steps 0 e parsed cfg = cfg"
| "verify_steps (Suc n) e parsed (st, r) = verify_steps n e parsed (verify_step e parsed st r)"

datatype caller = First | Second

fun interleave ::
  "caller list \<Rightarrow> env \<times> verify_req option \<Rightarrow> env \<times> verify_req option
     \<Rightarrow> vstate \<times> vstate \<times> redis \<Rightarrow> vstate \<times> vstate \<times> redis" where
  "interleave [] a b cfg = cfg"
| "interleave (First # sch) a b (sa, sb, r) =
     (let (sa', r') = verify_step (fst a) (snd a) sa r in interleave sch a b (sa', sb, r'))"
| "interleave (Second # sch) a b (sa, sb, r) =
     (let (sb', r') = verify_step (fst b) (snd b) sb r in interleave sch a b (sa, sb', r'))"


section \<open>Package handlers: the subscriber aggregate\<close>

subsection \<open>The path parameter: strconv.Atoi\<close>

text \<open>
  \<open>strconv.Atoi\<close> reads an optional sign and a non-empty run of decimal digits, and
  fails on anything else and on a value outside the 64-bit \<open>int\<close>.
\<close>

definition digit_val :: "char \<Rightarrow> int" where
  "digit_val c = int (of_char c) - 48"

definition Atoi :: "string \<Rightarrow> int option" where
  "Atoi s =
     (let (neg, ds) = (case s of
                         c # r \<Rightarrow> if c = CHR ''-'' then (True, r)
                                  else if c = CHR ''+'' then (False, r) else (False, s)
                       | [] \<Rightarrow> (False, s)) in
      if ds = [] \<or> \<not> list_all is_digit ds then None
      else
        let n = foldl (\<lambda>a c. 10 * a + digit_val c) 0 ds;
            v = (if neg then - n else n) in
        if v < - (2 ^ 63) \<or> 2 ^ 63 \<le> v then None else Some v)"

subsection \<open>strings.TrimSpace\<close>

text \<open>
  A Go string is its UTF-8 bytes. \<open>strings.TrimSpace\<close> removes the leading and the
  trailing white space, as Unicode defines it (\<open>unicode.IsSpace\<close>): the six ASCII
  characters tab, line feed, vertical tab, form feed, carriage return and space, and the
  characters U+0085, U+00A0, U+1680, U+2000 to U+200A, U+2028, U+2029, U+202F, U+205F and
  U+3000, here by their encodings.
\<close>

definition white_space :: "string list" where
  "white_space =
     [[CHR 0x09], [CHR 0x0A], [CHR 0x0B], [CHR 0x0C], [CHR 0x0D], [CHR 0x20],
      [CHR 0xC2, CHR 0x85], [CHR 0xC2, CHR 0xA0],
      [CHR 0xE1, CHR 0x9A, CHR 0x80],
      [CHR 0xE2, CHR 0x80, CHR 0x80], [CHR 0xE2, CHR 0x80, CHR 0x81],
      [CHR 0xE2, CHR 0x80, CHR 0x82], [CHR 0xE2, CHR 0x80, CHR 0x83],
      [CHR 0xE2, CHR 0x80, CHR 0x84], [CHR 0xE2, CHR 0x80, CHR 0x85],
      [CHR 0xE2, CHR 0x80, CHR 0x86], [CHR 0xE2, CHR 0x80, CHR 0x87],
      [CHR 0xE2, CHR 0x80, CHR 0x88], [CHR 0xE2, CHR 0x80, CHR 0x89],
      [CHR 0xE2, CHR 0x80, CHR 0x8A],
      [CHR 0xE2, CHR 0x80, CHR 0xA8], [CHR 0xE2, CHR 0x80, CHR 0xA9],
      [CHR 0xE2, CHR 0x80, CHR 0xAF],
      [CHR 0xE2, CHR 0x81, CHR 0x9F],
      [CHR 0xE3, CHR 0x80, CHR 0x80]]"

function trim_prefixes :: "string list \<Rightarrow> string \<Rightarrow> string" where
  "trim_prefixes ws s =
     (case find (\<lambda>w. w \<noteq> [] \<and> prefix w s) ws of
        None \<Rightarrow> s
      | Some w \<Rightarrow> trim_prefixes ws (drop (length w) s))"
  by pat_completeness auto
termination
  by (relation "measure (\<lambda>(ws, s). length s)") (auto simp: find_Some_iff prefix_def)

declare trim_prefixes.simps [simp del]

definition TrimSpace :: "string \<Rightarrow> string" where
  "TrimSpace s = rev (trim_prefixes (map rev white_space) (rev (trim_prefixes white_space s)))"

subsection \<open>The pattern of an email address\<close>

text \<open>
  The regular expressions that \<open>emailRegex\<close> needs: character classes given by ranges,
  sequence, alternative and repetition. \<open>MatchString\<close> decides a match of the whole
  string, which is what the anchors \<open>^\<close> and \<open>$\<close> of the pattern ask for, by taking
  the derivative of the expression by each character in turn.
\<close>

datatype regexp = Empty | Eps | Class "(char \<times> char) list"
  | Seq regexp regexp | Alt regexp regexp | Star regexp

definition in_class :: "char \<Rightarrow> (char \<times> char) list \<Rightarrow> bool" where
  "in_class c rs = list_ex (\<lambda>(lo, hi). (of_char lo :: nat) \<le> of_char c \<and> (of_char c :: nat) \<le> of_char hi) rs"

fun nullable :: "regexp \<Rightarrow> bool" where
  "nullable Empty = False"
| "nullable Eps = True"
| "nullable (Class rs) = False"
| "nullable (Seq r s) = (nullable r \<and> nullable s)"
| "nullable (Alt r s) = (nullable r \<or> nullable s)"
| "nullable (Star r) = True"

fun deriv :: "char \<Rightarrow> regexp \<Rightarrow> regexp" where
  "deriv c Empty = Empty"
| "deriv c Eps = Empty"
| "deriv c (Class rs) = (if in_class c rs then Eps else Empty)"
| "deriv c (Seq r s) =
     (if nullable r then Alt (Seq (deriv c r) s) (deriv c s) else Seq (deriv c r) s)"
| "deriv c (Alt r s) = Alt (deriv c r) (deriv c s)"
| "deriv c (Star r) = Seq (deriv c r) (Star r)"

definition MatchString :: "regexp \<Rightarrow> string \<Rightarrow> bool" where
  "MatchString r s = nullable (foldl (\<lambda>r c. deriv c r) r s)"

definition OneOrMore :: "regexp \<Rightarrow> regexp" where
  "OneOrMore r = Seq r (Star r)"

definition Lit :: "char \<Rightarrow> regexp" where
  "Lit c = Class [(c, c)]"

definition letter :: "(char \<times> char) list" where
  "letter = [(CHR ''a'', CHR ''z''), (CHR ''A'', CHR ''Z'')]"

definition alnum :: "(char \<times> char) list" where
  "alnum = letter @ [(CHR ''0'', CHR ''9'')]"

text \<open>\<open>^[a-zA-Z0-9._%+\-]+@[a-zA-Z0-9.\-]+\.[a-zA-Z]{2,}$\<close>\<close>

definition emailRegex :: regexp where
  "emailRegex =
     Seq (OneOrMore (Class (alnum @ [(CHR ''.'', CHR ''.''), (CHR ''_'', CHR ''_''), (CHR ''%'', CHR ''%''),
                                 (CHR ''+'', CHR ''+''), (CHR ''-'', CHR ''-'')])))
      (Seq (Lit (CHR ''@''))
        (Seq (OneOrMore (Class (alnum @ [(CHR ''.'', CHR ''.''), (CHR ''-'', CHR ''-'')])))
          (Seq (Lit (CHR ''.''))
            (Seq (Class letter) (Seq (Class letter) (Star (Class letter)))))))"


definition validateSubscriberFields :: "Subscriber \<Rightarrow> string option" where
  "validateSubscriberFields sub =
     (if Subscriber.Email sub = '''' \<or> \<not> MatchString emailRegex (Subscriber.Email sub)
      then Some ''invalid or missing email''
      else if TrimSpace (Subscriber.Name sub) = '''' then Some ''missing name''
      else None)"





subsection \<open>The relational store\<close>

text \<open>
  The PostgreSQL database behind the \<open>*gorm.DB\<close> handle: the two tables as lists of
  rows, the two \<open>SERIAL\<close> sequences by the last value they gave, the clock that fills
  \<open>autoCreateTime\<close> and \<open>autoUpdateTime\<close>, and the schedule of the calls that fail for a
  reason outside the model (the connection, a permission, a column length), one flag for
  each call to come. A row of table \<open>subscribers\<close> is a \<open>Subscriber\<close> whose
  \<open>SubscriberTypes\<close> is nil: the association is not a column. A call of GORM is one
  transaction: when it fails, the tables are as they were before.
\<close>

datatype db_error = ErrRecordNotFound | ErrConstraint | ErrFailure

definition Error :: "db_error \<Rightarrow> string" where
  "Error e = (case e of ErrRecordNotFound \<Rightarrow> ''record not found''
                      | ErrConstraint \<Rightarrow> ''constraint violation''
                      | ErrFailure \<Rightarrow> ''store failure'')"

record db =
  subscribers :: "Subscriber list"
  subscriber_types :: "SubscriberType list"
  subscribers_id_seq :: nat
  subscriber_types_id_seq :: nat
  clock :: time
  failures :: "bool list"

definition next_failure :: "db \<Rightarrow> bool \<times> db" where
  "next_failure d = (case failures d of [] \<Rightarrow> (False, d) | f # fs \<Rightarrow> (f, d\<lparr>failures := fs\<rparr>))"

text \<open>The values of the enumeration type \<open>subscriber_type\<close> of the schema.\<close>

definition subscriber_type_enum :: "string list" where
  "subscriber_type_enum = [''shopper'', ''business'', ''driver'', ''champion'', ''donor'', ''developer'']"

text \<open>
  \<open>db.Preload("SubscriberTypes").First(&dest, id)\<close>: the row with this primary key,
  and in its \<open>SubscriberTypes\<close> the rows of \<open>subscriber_types\<close> that refer to it.
\<close>

definition Preload_SubscriberTypes :: "db \<Rightarrow> Subscriber \<Rightarrow> Subscriber" where
  "Preload_SubscriberTypes d s =
     s\<lparr>SubscriberTypes := Some (filter (\<lambda>t. SubscriberID t = Subscriber.ID s) (subscriber_types d))\<rparr>"

definition Preload_First :: "int \<Rightarrow> db \<Rightarrow> (db_error + Subscriber) \<times> db" where
  "Preload_First id' d =
     (let (f, d') = next_failure d in
      if f then (Inl ErrFailure, d')
      else (case find (\<lambda>s. int (Subscriber.ID s) = id') (subscribers d') of
              None \<Rightarrow> (Inl ErrRecordNotFound, d')
            | Some s \<Rightarrow> (Inr (Preload_SubscriberTypes d' s), d')))"

text \<open>\<open>db.Where("subscriber_id = ?", id).Delete(&models.SubscriberType{})\<close>\<close>

definition Delete_SubscriberTypes_Where :: "nat \<Rightarrow> db \<Rightarrow> db_error option \<times> db" where
  "Delete_SubscriberTypes_Where sid d =
     (let (f, d') = next_failure d in
      if f then (Some ErrFailure, d')
      else (None, d'\<lparr>subscriber_types := filter (\<lambda>t. SubscriberID t \<noteq> sid) (subscriber_types d')\<rparr>))"

text \<open>
  What an \<open>INSERT\<close> does to a value before the row is written: a zero time stamp becomes
  the time of the call, a zero primary key the next value of the sequence.
\<close>

definition stamp_type :: "time \<Rightarrow> SubscriberType \<Rightarrow> SubscriberType" where
  "stamp_type now t =
     t\<lparr>SubscriberType.CreatedAt := (if SubscriberType.CreatedAt t = 0 then now else SubscriberType.CreatedAt t),
       SubscriberType.UpdatedAt := (if SubscriberType.UpdatedAt t = 0 then now else SubscriberType.UpdatedAt t)\<rparr>"

definition next_type_id :: "SubscriberType \<Rightarrow> nat \<Rightarrow> SubscriberType \<times> nat" where
  "next_type_id t seq =
     (if SubscriberType.ID t = 0 then (t\<lparr>SubscriberType.ID := Suc seq\<rparr>, Suc seq) else (t, seq))"

fun assign_ids :: "nat \<Rightarrow> SubscriberType list \<Rightarrow> SubscriberType list \<times> nat" where
  "assign_ids seq [] = ([], seq)"
| "assign_ids seq (t # ts) =
     (let (t', seq') = next_type_id t seq; (rows, seq'') = assign_ids seq' ts in (t' # rows, seq''))"

text \<open>
  \<open>db.Create(&types)\<close> of a slice of \<open>SubscriberType\<close>: one \<open>INSERT\<close> of all the rows.
  It fails, and writes nothing, when a name is not of the enumeration, when a primary key
  is already taken, or when a row refers to no subscriber.
\<close>

definition Create_SubscriberTypes :: "SubscriberType list \<Rightarrow> db \<Rightarrow> db_error option \<times> db" where
  "Create_SubscriberTypes ts d =
     (let (f, d') = next_failure d in
      if f then (Some ErrFailure, d')
      else
        let (rows, seq) = assign_ids (subscriber_types_id_seq d') (map (stamp_type (clock d')) ts) in
        if list_all (\<lambda>t. SubscriberType.Name t \<in> set subscriber_type_enum) rows
           \<and> distinct (map SubscriberType.ID rows @ map SubscriberType.ID (subscriber_types d'))
           \<and> list_all (\<lambda>t. SubscriberID t \<in> set (map Subscriber.ID (subscribers d'))) rows
        then (None, d'\<lparr>subscriber_types := subscriber_types d' @ rows, subscriber_types_id_seq := seq\<rparr>)
        else (Some ErrConstraint, d'))"

text \<open>
  GORM saves the associations of a value that it creates or updates (unless the call
  omits them, which no handler does): after the row of the subscriber is written, every
  element of its \<open>SubscriberTypes\<close> gets the subscriber's primary key as its
  \<open>SubscriberID\<close> and is written with
  \<open>INSERT ... ON CONFLICT (id) DO UPDATE SET subscriber_id = excluded.subscriber_id\<close>:
  an element whose primary key is in the table re-points that row, any other element is
  inserted.
\<close>

definition upsert_type :: "SubscriberType \<Rightarrow> SubscriberType list \<times> nat \<Rightarrow> SubscriberType list \<times> nat" where
  "upsert_type t tab =
     (let (rows, seq) = tab; (t', seq') = next_type_id t seq in
      if SubscriberType.ID t' \<in> set (map SubscriberType.ID rows)
      then (map (\<lambda>r. if SubscriberType.ID r = SubscriberType.ID t'
                      then r\<lparr>SubscriberID := SubscriberID t'\<rparr> else r) rows, seq')
      else (rows @ [t'], seq'))"

definition Save_Associations :: "nat \<Rightarrow> SubscriberType list option \<Rightarrow> db \<Rightarrow> db_error option \<times> db" where
  "Save_Associations parent children d =
     (case children of
        None \<Rightarrow> (None, d)
      | Some cs \<Rightarrow>
          let cs' = map (\<lambda>c. stamp_type (clock d) (c\<lparr>SubscriberID := parent\<rparr>)) cs in
          if list_all (\<lambda>t. SubscriberType.Name t \<in> set subscriber_type_enum) cs'
          then
            let (rows, seq) = fold upsert_type cs' (subscriber_types d, subscriber_types_id_seq d) in
            (None, d\<lparr>subscriber_types := rows, subscriber_types_id_seq := seq\<rparr>)
          else (Some ErrConstraint, d))"

text \<open>
  \<open>db.Create(&subscriber)\<close>: the row, then its associations. The value in memory gets
  its primary key and its time stamps.
\<close>

definition Create_Subscriber :: "Subscriber \<Rightarrow> db \<Rightarrow> (db_error + Subscriber) \<times> db" where
  "Create_Subscriber s d =
     (let (f, d') = next_failure d in
      if f then (Inl ErrFailure, d')
      else
        let now = clock d';
            seq = (if Subscriber.ID s = 0 then Suc (subscribers_id_seq d') else subscribers_id_seq d');
            s' = s\<lparr>Subscriber.ID := (if Subscriber.ID s = 0 then seq else Subscriber.ID s),
                   Subscriber.CreatedAt := (if Subscriber.CreatedAt s = 0 then now else Subscriber.CreatedAt s),
                   Subscriber.UpdatedAt := (if Subscriber.UpdatedAt s = 0 then now else Subscriber.UpdatedAt s)\<rparr> in
        if Subscriber.ID s' \<in> set (map Subscriber.ID (subscribers d')) then (Inl ErrConstraint, d')
        else
          (case Save_Associations (Subscriber.ID s') (SubscriberTypes s')
                  (d'\<lparr>subscribers := subscribers d' @ [s'\<lparr>SubscriberTypes := None\<rparr>],
                      subscribers_id_seq := seq\<rparr>) of
             (Some e, _) \<Rightarrow> (Inl e, d')
           | (None, d'') \<Rightarrow> (Inr s', d'')))"

text \<open>
  \<open>db.Save(&subscriber)\<close>: a value without primary key is created; otherwise all the
  columns of its row are written, \<open>updated_at\<close> with the time of the call (the row is
  inserted when it is not there), and then its associations.
\<close>

definition Save :: "Subscriber \<Rightarrow> db \<Rightarrow> db_error option \<times> db" where
  "Save s d =
     (if Subscriber.ID s = 0 then
        (case Create_Subscriber s d of (Inl e, d') \<Rightarrow> (Some e, d') | (Inr _, d') \<Rightarrow> (None, d'))
      else
        let (f, d') = next_failure d in
        if f then (Some ErrFailure, d')
        else
          let row = s\<lparr>SubscriberTypes := None, Subscriber.UpdatedAt := clock d'\<rparr>;
              rows = (if Subscriber.ID s \<in> set (map Subscriber.ID (subscribers d'))
                      then map (\<lambda>r. if Subscriber.ID r = Subscriber.ID s then row else r) (subscribers d')
                      else subscribers d' @ [row]) in
          (case Save_Associations (Subscriber.ID s) (SubscriberTypes s) (d'\<lparr>subscribers := rows\<rparr>) of
             (Some e, _) \<Rightarrow> (Some e, d')
           | (None, d'') \<Rightarrow> (None, d'')))"

subsection \<open>CreateSubscriber and UpdateSubscriber\<close>

text \<open>
  A handler gets the path parameter \<open>id\<close> as it is in the URL, and the result of
  \<open>c.BodyParser\<close>: \<open>None\<close> when the body does not parse, otherwise the
  \<open>models.Subscriber\<close> it decodes to, whose \<open>SubscriberTypes\<close> is nil when the body
  has no \<open>subscriber_types\<close>.
\<close>

definition CreateSubscriber :: "Subscriber option \<Rightarrow> db \<Rightarrow> response \<times> db" where
  "CreateSubscriber parsed d =
     (case parsed of
        None \<Rightarrow> (JSON_error StatusBadRequest ''Unable to parse request body'', d)
      | Some subscriber \<Rightarrow>
          (case validateSubscriberFields subscriber of
             Some err \<Rightarrow> (JSON_error StatusBadRequest err, d)
           | None \<Rightarrow>
               (case Create_Subscriber subscriber d of
                  (Inl err, d1) \<Rightarrow>
                    (JSON_error StatusInternalServerError (''Could not create subscriber: '' @ Error err), d1)
                | (Inr created, d1) \<Rightarrow>
                    (case Preload_First (int (Subscriber.ID created)) d1 of
                       (Inl _, d2) \<Rightarrow>
                         (JSON_error StatusInternalServerError
                            ''Failed to load created subscriber with subscriber_types'', d2)
                     | (Inr loaded, d2) \<Rightarrow>
                         (\<lparr>Status = StatusCreated, Body = SubscriberJSON loaded\<rparr>, d2)))))"

text \<open>The end of \<open>UpdateSubscriber\<close>, common to its three branches.\<close>

definition save_and_reload :: "Subscriber \<Rightarrow> db \<Rightarrow> response \<times> db" where
  "save_and_reload existing d =
     (case Save existing d of
        (Some _, d1) \<Rightarrow> (JSON_error StatusInternalServerError ''Could not update subscriber'', d1)
      | (None, d1) \<Rightarrow>
          (case Preload_First (int (Subscriber.ID existing)) d1 of
             (Inl _, d2) \<Rightarrow> (JSON_error StatusInternalServerError ''Failed to fetch updated subscriber'', d2)
           | (Inr loaded, d2) \<Rightarrow> (\<lparr>Status = StatusOK, Body = SubscriberJSON loaded\<rparr>, d2)))"

definition UpdateSubscriber :: "string \<Rightarrow> Subscriber option \<Rightarrow> db \<Rightarrow> response \<times> db" where
  "UpdateSubscriber idParam parsed d =
     (case Atoi idParam of
        None \<Rightarrow> (JSON_error StatusBadRequest ''Invalid subscriber ID'', d)
      | Some id' \<Rightarrow>
          (case Preload_First id' d of
             (Inl _, d1) \<Rightarrow> (JSON_error StatusNotFound ''Subscriber not found'', d1)
           | (Inr found, d1) \<Rightarrow>
               (case parsed of
                  None \<Rightarrow> (JSON_error StatusBadRequest ''Unable to parse request body'', d1)
                | Some updates \<Rightarrow>
                    (case validateSubscriberFields updates of
                       Some err \<Rightarrow> (JSON_error StatusBadRequest err, d1)
                     | None \<Rightarrow>
                         (let existing = found\<lparr>Subscriber.Email := Subscriber.Email updates,
                                                  Subscriber.Name := Subscriber.Name updates\<rparr> in
                          case SubscriberTypes updates of
                            Some (t # ts) \<Rightarrow>
                              (case Delete_SubscriberTypes_Where (Subscriber.ID existing) d1 of
                                 (Some _, d2) \<Rightarrow>
                                   (JSON_error StatusInternalServerError
                                      ''Could not clear old subscriber_types'', d2)
                               | (None, d2) \<Rightarrow>
                                   (case Create_SubscriberTypes
                                           (map (\<lambda>u. u\<lparr>SubscriberID := Subscriber.ID existing\<rparr>) (t # ts)) d2 of
                                      (Some _, d3) \<Rightarrow>
                                        (JSON_error StatusInternalServerError
                                           ''Could not create updated subscriber_types'', d3)
                                    | (None, d3) \<Rightarrow> save_and_reload existing d3))
                          | Some [] \<Rightarrow>
                              (case Delete_SubscriberTypes_Where (Subscriber.ID existing) d1 of
                                 (Some _, d2) \<Rightarrow>
                                   (JSON_error StatusInternalServerError
                                      ''Could not remove subscriber_types'', d2)
                               | (None, d2) \<Rightarrow> save_and_reload existing d2)
                          | None \<Rightarrow> save_and_reload existing d1)))))"

subsection \<open>DeleteSubscriber\<close>




section \<open>An environment and stores for examples\<close>

text \<open>
  A small stand-in for the JWT library, used where a theorem is instantiated: the token of
  a session key \<open>k\<close> is \<open>v1.k\<close>, and it verifies under the development secret.
\<close>

definition toy_env :: env where
  "toy_env = \<lparr>JWT_USER_SECRET_KEY = '''',
     ParseWithClaims = (\<lambda>tok secret. if prefix ''v1.'' tok \<and> secret = ''devsecret''
        then Some [''session_key'' \<mapsto> ClaimString (drop 3 tok)] else None),
     SignedString = (\<lambda>claims secret. case claims ''session_key'' of
        Some (ClaimString k) \<Rightarrow> Some (''v1.'' @ k) | _ \<Rightarrow> None),
     Now = 0, UnixNano = 0, RandRead = (\<lambda>n. None), EncodeToString = (\<lambda>raw. ''AAAAAAAAAAAAAAAAAAAAAA'')\<rparr>"


definition code_store :: "bool list \<Rightarrow> redis" where
  "code_store fs = \<lparr>kv = [''signin_code:oneuse@example.com'' \<mapsto> (''987654'', 300)], faults = fs\<rparr>"

definition oneuse_req :: verify_req where
  "oneuse_req = \<lparr>Email = ''oneuse@example.com'', Code = ''987654''\<rparr>"

definition toy_env2 :: env where
  "toy_env2 = toy_env\<lparr>EncodeToString := (\<lambda>raw. ''BBBBBBBBBBBBBBBBBBBBBB'')\<rparr>"

subsection \<open>A store with two subscribers, and request bodies, for examples\<close>

definition shopper_row :: SubscriberType where
  "shopper_row = \<lparr>SubscriberType.ID = 1, SubscriberID = 1, Name = ''shopper'', CreatedAt = 100, UpdatedAt = 100\<rparr>"

definition business_row :: SubscriberType where
  "business_row = \<lparr>SubscriberType.ID = 2, SubscriberID = 1, Name = ''business'', CreatedAt = 100, UpdatedAt = 100\<rparr>"

definition donor_row :: SubscriberType where
  "donor_row = \<lparr>SubscriberType.ID = 3, SubscriberID = 2, Name = ''donor'', CreatedAt = 150, UpdatedAt = 150\<rparr>"

definition two_subscribers :: db where
  "two_subscribers =
     \<lparr>subscribers = [\<lparr>Subscriber.ID = 1, Email = ''alice@example.com'', Name = ''Alice'',
                       SubscriberTypes = None, CreatedAt = 100, UpdatedAt = 100\<rparr>,
                      \<lparr>Subscriber.ID = 2, Email = ''bob@example.com'', Name = ''Bob'',
                       SubscriberTypes = None, CreatedAt = 150, UpdatedAt = 150\<rparr>],
      subscriber_types = [shopper_row, business_row, donor_row],
      subscribers_id_seq = 2, subscriber_types_id_seq = 3, clock = 200, failures = []\<rparr>"

text \<open>
  \<open>{"email": "alice@example.org", "name": "Alice B", "subscriber_types": ts}\<close>, and
  the same body without \<open>subscriber_types\<close>.
\<close>

definition alice_update :: "SubscriberType list option \<Rightarrow> Subscriber" where
  "alice_update ts =
     \<lparr>Subscriber.ID = 0, Email = ''alice@example.org'', Name = ''Alice B'',
      SubscriberTypes = ts, CreatedAt = 0, UpdatedAt = 0\<rparr>"

text \<open>\<open>{"name": "driver", "subscriber_id": sid}\<close>\<close>

definition driver_type :: "nat \<Rightarrow> SubscriberType" where
  "driver_type sid = \<lparr>SubscriberType.ID = 0, SubscriberID = sid, Name = ''driver'', CreatedAt = 0, UpdatedAt = 0\<rparr>"


text \<open>The store of the repository's tests when a test begins, and the bodies they send.\<close>

definition empty_db :: db where
  "empty_db = \<lparr>subscribers = [], subscriber_types = [], subscribers_id_seq = 0,
     subscriber_types_id_seq = 0, clock = 200, failures = []\<rparr>"

definition body :: "string \<Rightarrow> string \<Rightarrow> string list option \<Rightarrow> Subscriber" where
  "body email name types =
     \<lparr>Subscriber.ID = 0, Email = email, Name = name,
      SubscriberTypes = map_option (map (\<lambda>n. \<lparr>SubscriberType.ID = 0, SubscriberID = 0, Name = n,
                                                CreatedAt = 0, UpdatedAt = 0\<rparr>)) types,
      CreatedAt = 0, UpdatedAt = 0\<rparr>"

section \<open>Properties\<close>

subsection \<open>The key-value store\<close>


lemma next_fault_eq: "next_fault r = (call_fails (faults r) 0, r\<lparr>faults := tl (faults r)\<rparr>)"
  by (cases "faults r") (simp_all add: next_fault_def call_fails_def)

lemma call_fails_tl [simp]: "call_fails (tl fs) n = call_fails fs (Suc n)"
  by (cases fs) (simp_all add: call_fails_def)

lemma TrimPrefix_Bearer: "(TrimPrefix h ''Bearer '' = h) = (\<not> prefix ''Bearer '' h)"
proof (cases "prefix ''Bearer '' h")
  case True
  then obtain t where "h = ''Bearer '' @ t" by (auto simp: prefix_def)
  then show ?thesis by (simp add: TrimPrefix_def)
next
  case False
  then show ?thesis by (simp add: TrimPrefix_def)
qed

lemma TrimPrefix_Bearer_drop: "prefix ''Bearer '' h \<Longrightarrow> TrimPrefix h ''Bearer '' = drop 7 h"
  by (simp add: TrimPrefix_def eval_nat_numeral)

lemma GetValue_absent:
  "kv r key = None \<Longrightarrow> snd (fst (GetValue key r)) \<noteq> None"
  by (simp add: GetValue_def next_fault_eq)

lemma RequireJWT_cases:
  "RequireJWT e h r =
     (if h = '''' then (Respond (JSON_error StatusUnauthorized ''Missing Authorization header''), r)
      else if \<not> prefix ''Bearer '' h then (Respond (JSON_error StatusUnauthorized ''Invalid token format''), r)
      else (case ParseWithClaims e (drop 7 h) (user_secret e) of
             None \<Rightarrow> (Respond (JSON_error StatusUnauthorized ''Invalid or expired token''), r)
           | Some claims \<Rightarrow>
               (case claims ''session_key'' of
                  Some (ClaimString sessionKey) \<Rightarrow>
                    (let ((sessionVal, err), r') = GetValue (''session:'' @ sessionKey) r in
                     if err \<noteq> None then
                       (Respond (JSON_error StatusUnauthorized ''Session not found or expired''), r')
                     else if sessionVal = '''' then
                       (Respond (JSON_error StatusUnauthorized ''Session invalid or not found''), r')
                     else (Next, r'))
                | _ \<Rightarrow> (Respond (JSON_error StatusUnauthorized ''Session key missing in token''), r))))"
proof (cases "prefix ''Bearer '' h")
  case True
  then have "TrimPrefix h ''Bearer '' \<noteq> h" "TrimPrefix h ''Bearer '' = drop 7 h"
    using TrimPrefix_Bearer [of h] TrimPrefix_Bearer_drop [of h] by simp_all
  then show ?thesis using True by (simp add: RequireJWT_def Let_def)
next
  case False
  then have "TrimPrefix h ''Bearer '' = h" by (simp add: TrimPrefix_Bearer)
  then show ?thesis using False by (simp add: RequireJWT_def Let_def)
qed

text \<open>
  C1 (RequireJWT performs its checks in the order: Authorization header present, Bearer
  prefix, signature and expiry, session key present in the session store; the first that
  fails answers 401 and the request is passed on only when all of them hold; a valid token
  whose session key is absent from the store is rejected). Each conjunct gives the answer
  of the first failing check under the hypothesis that the earlier checks passed; the last
  one is the only way to \<open>Next\<close>.
\<close>

theorem RequireJWT_order:
  "(h = '''' \<longrightarrow>
      fst (RequireJWT e h r) = Respond (JSON_error StatusUnauthorized ''Missing Authorization header''))
   \<and> (h \<noteq> '''' \<and> \<not> prefix ''Bearer '' h \<longrightarrow>
      fst (RequireJWT e h r) = Respond (JSON_error StatusUnauthorized ''Invalid token format''))
   \<and> (h \<noteq> '''' \<and> prefix ''Bearer '' h \<and> ParseWithClaims e (drop 7 h) (user_secret e) = None \<longrightarrow>
      fst (RequireJWT e h r) = Respond (JSON_error StatusUnauthorized ''Invalid or expired token''))
   \<and> (h \<noteq> '''' \<and> prefix ''Bearer '' h \<and> ParseWithClaims e (drop 7 h) (user_secret e) = Some claims
        \<and> (\<forall>k. claims ''session_key'' \<noteq> Some (ClaimString k)) \<longrightarrow>
      fst (RequireJWT e h r) = Respond (JSON_error StatusUnauthorized ''Session key missing in token''))
   \<and> (h \<noteq> '''' \<and> prefix ''Bearer '' h \<and> ParseWithClaims e (drop 7 h) (user_secret e) = Some claims
        \<and> claims ''session_key'' = Some (ClaimString k)
        \<and> snd (fst (GetValue (''session:'' @ k) r)) \<noteq> None \<longrightarrow>
      fst (RequireJWT e h r) = Respond (JSON_error StatusUnauthorized ''Session not found or expired''))
   \<and> (h \<noteq> '''' \<and> prefix ''Bearer '' h \<and> ParseWithClaims e (drop 7 h) (user_secret e) = Some claims
        \<and> claims ''session_key'' = Some (ClaimString k)
        \<and> fst (GetValue (''session:'' @ k) r) = ('''', None) \<longrightarrow>
      fst (RequireJWT e h r) = Respond (JSON_error StatusUnauthorized ''Session invalid or not found''))
   \<and> (h \<noteq> '''' \<and> prefix ''Bearer '' h \<and> ParseWithClaims e (drop 7 h) (user_secret e) = Some claims
        \<and> claims ''session_key'' = Some (ClaimString k)
        \<and> fst (GetValue (''session:'' @ k) r) = (v, None) \<and> v \<noteq> '''' \<longrightarrow>
      fst (RequireJWT e h r) = Next)
   \<and> (prefix ''Bearer '' h \<and> ParseWithClaims e (drop 7 h) (user_secret e) = Some claims
        \<and> claims ''session_key'' = Some (ClaimString k) \<and> kv r (''session:'' @ k) = None \<longrightarrow>
      fst (RequireJWT e h r) = Respond (JSON_error StatusUnauthorized ''Session not found or expired''))"
proof (intro conjI impI)
  assume a: "prefix ''Bearer '' h \<and> ParseWithClaims e (drop 7 h) (user_secret e) = Some claims
        \<and> claims ''session_key'' = Some (ClaimString k) \<and> kv r (''session:'' @ k) = None"
  obtain v err r' where g: "GetValue (''session:'' @ k) r = ((v, err), r')"
    by (metis prod.collapse)
  with a have "err \<noteq> None"
    using GetValue_absent [of r "''session:'' @ k"] by simp
  moreover from a have "h \<noteq> ''''"
    by auto
  ultimately show "fst (RequireJWT e h r)
      = Respond (JSON_error StatusUnauthorized ''Session not found or expired'')"
    using a g by (simp add: RequireJWT_cases)
qed (auto simp: RequireJWT_cases split: option.splits claim.splits prod.splits)

theorem RequireJWT_order_witness:
  "fst (RequireJWT toy_env '''' \<lparr>kv = Map.empty, faults = []\<rparr>)
     = (Respond (JSON_error StatusUnauthorized ''Missing Authorization header''))
   \<and> fst (RequireJWT toy_env ''InvalidToken'' \<lparr>kv = Map.empty, faults = []\<rparr>)
     = (Respond (JSON_error StatusUnauthorized ''Invalid token format''))
   \<and> fst (RequireJWT toy_env ''Bearer abc.def.ghi'' \<lparr>kv = Map.empty, faults = []\<rparr>)
     = (Respond (JSON_error StatusUnauthorized ''Invalid or expired token''))
   \<and> fst (RequireJWT toy_env ''Bearer v1.nonexistentSessionKey'' \<lparr>kv = Map.empty, faults = []\<rparr>)
     = (Respond (JSON_error StatusUnauthorized ''Session not found or expired''))
   \<and> fst (RequireJWT toy_env ''Bearer v1.validSessionTest''
          \<lparr>kv = [''session:validSessionTest'' \<mapsto> (''{\"email\":\"valid@example.com\"}'', 0)], faults = []\<rparr>)
     = (Next)"
  using RequireJWT_order [where h = "''''" and e = toy_env and r = "\<lparr>kv = Map.empty, faults = []\<rparr>"]
    RequireJWT_order [where h = "''InvalidToken''" and e = toy_env and r = "\<lparr>kv = Map.empty, faults = []\<rparr>"]
    RequireJWT_order [where h = "''Bearer abc.def.ghi''" and e = toy_env and r = "\<lparr>kv = Map.empty, faults = []\<rparr>"]
    RequireJWT_order [where h = "''Bearer v1.nonexistentSessionKey''" and e = toy_env
       and claims = "[''session_key'' \<mapsto> ClaimString ''nonexistentSessionKey'']"
       and k = "''nonexistentSessionKey''" and r = "\<lparr>kv = Map.empty, faults = []\<rparr>"]
    RequireJWT_order [where h = "''Bearer v1.validSessionTest''" and e = toy_env
       and claims = "[''session_key'' \<mapsto> ClaimString ''validSessionTest'']"
       and k = "''validSessionTest''"
       and r = "\<lparr>kv = [''session:validSessionTest'' \<mapsto> (''{\"email\":\"valid@example.com\"}'', 0)], faults = []\<rparr>"
       and v = "''{\"email\":\"valid@example.com\"}''"]
  by (simp add: toy_env_def user_secret_def GetValue_def next_fault_def eval_nat_numeral)



lemma GetValue_eq:
  "GetValue key r =
     (if call_fails (faults r) 0 then (('''', Some RedisFault), r\<lparr>faults := tl (faults r)\<rparr>)
      else case kv r key of
             None \<Rightarrow> (('''', Some RedisNil), r\<lparr>faults := tl (faults r)\<rparr>)
           | Some (v, d) \<Rightarrow> ((v, None), r\<lparr>faults := tl (faults r)\<rparr>))"
  by (simp add: GetValue_def next_fault_eq split: option.splits)

lemma DeleteKey_eq:
  "DeleteKey key r =
     (if call_fails (faults r) 0 then (Some RedisFault, r\<lparr>faults := tl (faults r)\<rparr>)
      else (None, r\<lparr>faults := tl (faults r), kv := (kv r)(key := None)\<rparr>))"
  by (simp add: DeleteKey_def next_fault_eq)

lemma SetValue_eq:
  "SetValue key v d r =
     (if call_fails (faults r) 0 then (Some RedisFault, r\<lparr>faults := tl (faults r)\<rparr>)
      else (None, r\<lparr>faults := tl (faults r), kv := (kv r)(key \<mapsto> (v, d))\<rparr>))"
  by (simp add: SetValue_def next_fault_eq)

lemma session_key_neq_code_key: "''session:'' @ s \<noteq> signInCodeKey email"
  by (simp add: signInCodeKey_def)


text \<open>
  C3 (every deny path of RequireJWT gives the same externally observable outcome). What
  holds of the code: every answer of RequireJWT has status 401 and a JSON error body. The
  bodies are not the same; \<open>RequireJWT_deny_bodies_differ\<close> below evaluates two deny
  paths whose answers differ.
\<close>

theorem RequireJWT_deny_unauthorized:
  "(case fst (RequireJWT e h r) of
      Next \<Rightarrow> True
    | Respond resp \<Rightarrow> Status resp = StatusUnauthorized \<and> (\<exists>msg. Body resp = ErrorJSON msg))"
  by (simp add: RequireJWT_cases JSON_error_def split: option.splits claim.splits prod.splits)

theorem RequireJWT_deny_bodies_differ:
  "fst (RequireJWT toy_env ''Bearer abc.def.ghi'' \<lparr>kv = Map.empty, faults = []\<rparr>)
     = Respond \<lparr>Status = 401, Body = ErrorJSON ''Invalid or expired token''\<rparr>
   \<and> fst (RequireJWT toy_env ''Bearer v1.nonexistentSessionKey'' \<lparr>kv = Map.empty, faults = []\<rparr>)
     = Respond \<lparr>Status = 401, Body = ErrorJSON ''Session not found or expired''\<rparr>
   \<and> fst (RequireJWT toy_env ''Bearer abc.def.ghi'' \<lparr>kv = Map.empty, faults = []\<rparr>)
     \<noteq> fst (RequireJWT toy_env ''Bearer v1.nonexistentSessionKey'' \<lparr>kv = Map.empty, faults = []\<rparr>)"
  by (simp add: RequireJWT_cases toy_env_def user_secret_def GetValue_eq call_fails_def JSON_error_def)

text \<open>
  C5 (VerifySignIn answers 400 when no code is stored for the email, the key being absent
  or its value empty, and 401 when a code is stored and differs from the supplied one).
  The handler tests \<open>err != nil || storedCode == ""\<close> before it compares the codes, so
  a lookup that fails is answered like a missing code, also when a differing code is
  stored (\<open>VerifySignIn_differing_code_lookup_fails\<close> below). What holds, for a
  request with both fields non-empty: 400 when no code is stored, and 401 when a non-empty
  code is stored, differs from the supplied one, and the lookup does not fail.
\<close>

theorem VerifySignIn_statuses:
  "((kv r (signInCodeKey (verify_req.Email req)) = None
       \<or> (\<exists>d. kv r (signInCodeKey (verify_req.Email req)) = Some ('''', d)))
      \<and> verify_req.Email req \<noteq> '''' \<and> Code req \<noteq> '''' \<longrightarrow>
      fst (VerifySignIn e (Some req) r)
        = JSON_error StatusBadRequest ''No sign-in code found or code expired'')
   \<and> (kv r (signInCodeKey (verify_req.Email req)) = Some (stored, d) \<and> stored \<noteq> ''''
        \<and> stored \<noteq> Code req \<and> \<not> call_fails (faults r) 0
        \<and> verify_req.Email req \<noteq> '''' \<and> Code req \<noteq> '''' \<longrightarrow>
      fst (VerifySignIn e (Some req) r) = JSON_error StatusUnauthorized ''Invalid code'')"
  by (auto simp: VerifySignIn_def GetValue_eq)

theorem VerifySignIn_statuses_witness:
  "fst (VerifySignIn toy_env (Some oneuse_req) \<lparr>kv = Map.empty, faults = []\<rparr>)
     = JSON_error StatusBadRequest ''No sign-in code found or code expired''
   \<and> fst (VerifySignIn toy_env (Some \<lparr>Email = ''oneuse@example.com'', Code = ''123456''\<rparr>) (code_store []))
     = JSON_error StatusUnauthorized ''Invalid code''"
  using VerifySignIn_statuses [where req = oneuse_req and r = "\<lparr>kv = Map.empty, faults = []\<rparr>"
      and e = toy_env]
    VerifySignIn_statuses [where req = "\<lparr>Email = ''oneuse@example.com'', Code = ''123456''\<rparr>"
      and r = "code_store []" and e = toy_env and stored = "''987654''" and d = 300]
  by (simp add: oneuse_req_def code_store_def signInCodeKey_def call_fails_def)

theorem VerifySignIn_differing_code_lookup_fails:
  "kv (code_store [True]) (signInCodeKey ''oneuse@example.com'') = Some (''987654'', 300)
   \<and> fst (VerifySignIn toy_env (Some \<lparr>Email = ''oneuse@example.com'', Code = ''123456''\<rparr>) (code_store [True]))
     = JSON_error StatusBadRequest ''No sign-in code found or code expired''"
  by (simp add: VerifySignIn_def code_store_def signInCodeKey_def GetValue_def next_fault_def)

lemma VerifySignIn_no_code:
  assumes "kv r (signInCodeKey (verify_req.Email req)) = None"
    and "verify_req.Email req \<noteq> ''''" and "Code req \<noteq> ''''"
  shows "fst (VerifySignIn e (Some req) r)
        = JSON_error StatusBadRequest ''No sign-in code found or code expired''"
  using assms by (simp add: VerifySignIn_def GetValue_eq)

lemma VerifySignIn_success:
  assumes "VerifySignIn e (Some req) r = (resp, r')" and "Status resp = StatusOK"
  shows "verify_req.Email req \<noteq> '''' \<and> Code req \<noteq> '''' \<and> \<not> call_fails (faults r) 0 \<and> \<not> call_fails (faults r) 2
    \<and> (\<exists>d. kv r (signInCodeKey (verify_req.Email req)) = Some (Code req, d))
    \<and> kv r' = (if call_fails (faults r) 1 then kv r else (kv r)(signInCodeKey (verify_req.Email req) := None))
                 (''session:'' @ randomToken e 16 \<mapsto> (''{\"email\":\"'' @ verify_req.Email req @ ''\"}'', 24 * 3600))"
  using assms
  by (auto simp: VerifySignIn_def GetValue_eq DeleteKey_eq SetValue_eq JSON_error_def Let_def
        numeral_2_eq_2
      split: if_splits option.splits prod.splits)




lemma VerifySignIn_single_use:
  assumes "VerifySignIn e (Some req) r = (resp, r')"
    and "Status resp = StatusOK"
    and "\<not> call_fails (faults r) 1"
  shows "kv r' (signInCodeKey (verify_req.Email req)) = None
    \<and> fst (VerifySignIn e2 (Some req) r')
        = JSON_error StatusBadRequest ''No sign-in code found or code expired''"
proof -
  from VerifySignIn_success [OF assms(1,2)] assms(3)
  have ne: "verify_req.Email req \<noteq> ''''" "Code req \<noteq> ''''"
    and kv': "kv r' = ((kv r)(signInCodeKey (verify_req.Email req) := None))
                 (''session:'' @ randomToken e 16 \<mapsto> (''{\"email\":\"'' @ verify_req.Email req @ ''\"}'', 24 * 3600))"
    by simp_all
  have gone: "kv r' (signInCodeKey (verify_req.Email req)) = None"
    unfolding kv' using session_key_neq_code_key [of "randomToken e 16" "verify_req.Email req"]
    by (simp del: fun_upd_apply add: fun_upd_other fun_upd_same)
  with ne show ?thesis
    by (simp add: VerifySignIn_no_code)
qed

lemma VerifySignIn_single_use_example:
  "Status (fst (VerifySignIn toy_env (Some oneuse_req) (code_store []))) = StatusOK
   \<and> kv (snd (VerifySignIn toy_env (Some oneuse_req) (code_store [])))
        (signInCodeKey (verify_req.Email oneuse_req)) = None
   \<and> fst (VerifySignIn toy_env (Some oneuse_req) (snd (VerifySignIn toy_env (Some oneuse_req) (code_store []))))
        = JSON_error StatusBadRequest ''No sign-in code found or code expired''"
proof -
  have ok: "Status (fst (VerifySignIn toy_env (Some oneuse_req) (code_store []))) = StatusOK"
    by (simp add: VerifySignIn_def oneuse_req_def code_store_def toy_env_def GetValue_def DeleteKey_def
      SetValue_def next_fault_def signInCodeKey_def randomToken_def rand_Read_def GenerateJWT_def
      user_secret_def Let_def)
  have nf: "\<not> call_fails (faults (code_store [])) 1"
    by (simp add: code_store_def call_fails_def)
  show ?thesis
    using ok VerifySignIn_single_use [OF surjective_pairing ok nf, where ?e2.0 = toy_env] by simp
qed


text \<open>
  C2 (a sign-in code is single-use: after VerifySignIn succeeds for an email and code, the
  code key is gone and a second verification with the same pair is rejected). The handler
  calls \<open>DeleteKey\<close> under the comment "Remove the code from redis (single-use)" and
  drops the error that the call returns. When that one call fails and the session write
  works, the handler answers 200, the code is still stored, and the same code verifies a
  second time. (Where the delete works, the code is gone and the second verification is
  rejected: \<open>VerifySignIn_single_use\<close> above.)
\<close>

theorem VerifySignIn_replay_after_failed_delete:
  "Status (fst (VerifySignIn toy_env (Some oneuse_req) (code_store [False, True]))) = StatusOK
   \<and> kv (snd (VerifySignIn toy_env (Some oneuse_req) (code_store [False, True])))
        (signInCodeKey (verify_req.Email oneuse_req)) = Some (''987654'', 300)
   \<and> Status (fst (VerifySignIn toy_env (Some oneuse_req)
        (snd (VerifySignIn toy_env (Some oneuse_req) (code_store [False, True]))))) = StatusOK"
  by (simp add: VerifySignIn_def oneuse_req_def code_store_def toy_env_def GetValue_def DeleteKey_def
      SetValue_def next_fault_def signInCodeKey_def randomToken_def rand_Read_def GenerateJWT_def
      user_secret_def Let_def)


theorem VerifySignIn_replay_after_failed_delete_witness:
  "Status (fst (VerifySignIn toy_env (Some oneuse_req)
        (snd (VerifySignIn toy_env (Some oneuse_req) (code_store [False, True]))))) = StatusOK"
  using VerifySignIn_replay_after_failed_delete by simp

text \<open>
  C9 (if the session write fails after the code matched, the code has already been
  consumed and is not restored; the user needs a new code). This holds when the delete
  call worked: the answer is 500, the code key is absent afterwards, and a retry with the
  same pair is rejected with 400. When the delete call fails too, the code stays in the
  store (\<open>VerifySignIn_code_kept_when_delete_and_write_fail\<close> below).
\<close>

theorem VerifySignIn_failed_session_write:
  assumes "verify_req.Email req \<noteq> ''''" and "Code req \<noteq> ''''"
    and "kv r (signInCodeKey (verify_req.Email req)) = Some (Code req, d)"
    and "\<not> call_fails (faults r) 0" and "\<not> call_fails (faults r) 1" and "call_fails (faults r) 2"
  shows "fst (VerifySignIn e (Some req) r) = JSON_error StatusInternalServerError ''Could not store session''
    \<and> kv (snd (VerifySignIn e (Some req) r)) = (kv r)(signInCodeKey (verify_req.Email req) := None)
    \<and> fst (VerifySignIn e2 (Some req) (snd (VerifySignIn e (Some req) r)))
        = JSON_error StatusBadRequest ''No sign-in code found or code expired''"
proof -
  have run: "VerifySignIn e (Some req) r
    = (JSON_error StatusInternalServerError ''Could not store session'',
       r\<lparr>faults := tl (tl (tl (faults r))), kv := (kv r)(signInCodeKey (verify_req.Email req) := None)\<rparr>)"
    using assms
    by (simp add: VerifySignIn_def GetValue_eq DeleteKey_eq SetValue_eq Let_def numeral_2_eq_2)
  then show ?thesis
    using assms(1,2) by (simp add: VerifySignIn_no_code)
qed

theorem VerifySignIn_failed_session_write_witness:
  "fst (VerifySignIn toy_env (Some oneuse_req) (code_store [False, False, True]))
      = JSON_error StatusInternalServerError ''Could not store session''
   \<and> kv (snd (VerifySignIn toy_env (Some oneuse_req) (code_store [False, False, True])))
      = (kv (code_store [False, False, True]))(signInCodeKey (verify_req.Email oneuse_req) := None)
   \<and> fst (VerifySignIn toy_env (Some oneuse_req)
          (snd (VerifySignIn toy_env (Some oneuse_req) (code_store [False, False, True]))))
      = JSON_error StatusBadRequest ''No sign-in code found or code expired''"
  using VerifySignIn_failed_session_write [where req = oneuse_req and r = "code_store [False, False, True]"
      and d = 300 and e = toy_env and ?e2.0 = toy_env]
  by (simp add: oneuse_req_def code_store_def signInCodeKey_def call_fails_def)

theorem VerifySignIn_code_kept_when_delete_and_write_fail:
  "fst (VerifySignIn toy_env (Some oneuse_req) (code_store [False, True, True]))
      = JSON_error StatusInternalServerError ''Could not store session''
   \<and> kv (snd (VerifySignIn toy_env (Some oneuse_req) (code_store [False, True, True])))
        (signInCodeKey (verify_req.Email oneuse_req)) = Some (''987654'', 300)
   \<and> Status (fst (VerifySignIn toy_env (Some oneuse_req)
          (snd (VerifySignIn toy_env (Some oneuse_req) (code_store [False, True, True]))))) = StatusOK"
  by (simp add: VerifySignIn_def oneuse_req_def code_store_def toy_env_def GetValue_def DeleteKey_def
      SetValue_def next_fault_def signInCodeKey_def randomToken_def rand_Read_def GenerateJWT_def
      user_secret_def Let_def)


lemma verify_steps_VerifySignIn:
  "verify_steps 4 e parsed (AtLookup, r)
     = (Finished (fst (VerifySignIn e parsed r)), snd (VerifySignIn e parsed r))"
proof -
  have four: "(4::nat) = Suc (Suc (Suc (Suc 0)))"
    by simp
  show ?thesis
    unfolding four
    by (simp add: verify_step_def VerifySignIn_def Let_def split: option.splits prod.splits)
qed

theorem concurrent_VerifySignIn_both_succeed:
  "(case interleave [First, Second, First, Second, First, Second, First, Second]
           (toy_env, Some oneuse_req) (toy_env2, Some oneuse_req) (AtLookup, AtLookup, code_store []) of
      (sa, sb, r) \<Rightarrow>
        sa = Finished \<lparr>Status = StatusOK, Body = TokenJSON ''v1.AAAAAAAAAAAAAAAAAAAAAA''\<rparr>
        \<and> sb = Finished \<lparr>Status = StatusOK, Body = TokenJSON ''v1.BBBBBBBBBBBBBBBBBBBBBB''\<rparr>)"
  by (simp add: verify_step_def oneuse_req_def code_store_def toy_env_def toy_env2_def GetValue_def DeleteKey_def
      SetValue_def next_fault_def signInCodeKey_def randomToken_def rand_Read_def GenerateJWT_def
      user_secret_def Let_def)

lemma step_lookup_gone:
  assumes "kv r (signInCodeKey (verify_req.Email req)) = None"
    and "verify_req.Email req \<noteq> ''''" and "Code req \<noteq> ''''"
  shows "verify_step e (Some req) AtLookup r
    = (Finished (JSON_error StatusBadRequest ''No sign-in code found or code expired''),
       r\<lparr>faults := tl (faults r)\<rparr>)"
  using assms by (simp add: verify_step_def GetValue_eq)

lemma step_store_ok:
  assumes "faults r = []"
  shows "verify_step e (Some req) AtStore r
    = (AtSign (randomToken e 16),
       r\<lparr>faults := [], kv := (kv r)(''session:'' @ randomToken e 16
            \<mapsto> (''{\"email\":\"'' @ verify_req.Email req @ ''\"}'', 24 * 3600))\<rparr>)"
  using assms by (simp add: verify_step_def SetValue_eq call_fails_def Let_def)

lemma step_sign:
  "verify_step e (Some req) (AtSign sid) r
    = (Finished (if snd (GenerateJWT e sid)
                 then JSON_error StatusInternalServerError ''Could not create token''
                 else \<lparr>Status = StatusOK, Body = TokenJSON (fst (GenerateJWT e sid))\<rparr>), r)"
  by (cases "GenerateJWT e sid") (simp add: verify_step_def)

lemma step_finished: "verify_step e (Some req) (Finished resp) r = (Finished resp, r)"
  by (simp add: verify_step_def)

lemma interleave_after_delete:
  assumes ne: "verify_req.Email req \<noteq> ''''" "Code req \<noteq> ''''"
    and fin: "fin = (if snd (GenerateJWT ea (randomToken ea 16))
                     then JSON_error StatusInternalServerError ''Could not create token''
                     else \<lparr>Status = StatusOK, Body = TokenJSON (fst (GenerateJWT ea (randomToken ea 16)))\<rparr>)"
    and "kv r (signInCodeKey (verify_req.Email req)) = None" and "faults r = []"
    and "sa = AtStore \<or> sa = AtSign (randomToken ea 16)
         \<or> sa = Finished fin"
    and "sb = AtLookup \<or> sb = Finished (JSON_error StatusBadRequest ''No sign-in code found or code expired'')"
    and "(case sa of AtStore \<Rightarrow> 2 | AtSign _ \<Rightarrow> 1 | _ \<Rightarrow> 0) \<le> count_list sch First"
    and "(case sb of AtLookup \<Rightarrow> 1 | _ \<Rightarrow> 0) \<le> count_list sch Second"
  shows "fst (interleave sch (ea, Some req) (eb, Some req) (sa, sb, r))
           = Finished fin
    \<and> fst (snd (interleave sch (ea, Some req) (eb, Some req) (sa, sb, r)))
           = Finished (JSON_error StatusBadRequest ''No sign-in code found or code expired'')"
  using assms(4-9)
proof (induction sch arbitrary: sa sb r)
  case Nil
  then show ?case by auto
next
  case (Cons c sch)
  note key = session_key_neq_code_key [of "randomToken ea 16" "verify_req.Email req"]
  show ?case
  proof (cases c)
    case First
    obtain sa' r' where step: "verify_step ea (Some req) sa r = (sa', r')"
      by (cases "verify_step ea (Some req) sa r") blast
    have inv: "kv r' (signInCodeKey (verify_req.Email req)) = None \<and> faults r' = []
      \<and> (sa' = AtStore \<or> sa' = AtSign (randomToken ea 16)
         \<or> sa' = Finished fin)
      \<and> (case sa' of AtStore \<Rightarrow> 2 | AtSign _ \<Rightarrow> 1 | _ \<Rightarrow> 0) \<le> count_list sch First"
      using Cons.prems(3)
    proof (elim disjE)
      assume "sa = AtStore"
      with step Cons.prems key show ?thesis
        by (auto simp: step_store_ok First)
    next
      assume "sa = AtSign (randomToken ea 16)"
      with step Cons.prems fin show ?thesis
        by (auto simp: step_sign First)
    next
      assume "sa = Finished fin"
      with step Cons.prems show ?thesis
        by (auto simp: step_finished First)
    qed
    have "interleave (c # sch) (ea, Some req) (eb, Some req) (sa, sb, r)
        = interleave sch (ea, Some req) (eb, Some req) (sa', sb, r')"
      using step First by simp
    moreover have "(case sb of AtLookup \<Rightarrow> 1 | _ \<Rightarrow> 0) \<le> count_list sch Second"
      using Cons.prems(6) First by simp
    ultimately show ?thesis
      using Cons.IH [of r' sa' sb] inv Cons.prems(4) by simp
  next
    case Second
    obtain sb' r' where step: "verify_step eb (Some req) sb r = (sb', r')"
      by (cases "verify_step eb (Some req) sb r") blast
    have inv: "kv r' (signInCodeKey (verify_req.Email req)) = None \<and> faults r' = []
      \<and> (sb' = AtLookup \<or> sb' = Finished (JSON_error StatusBadRequest ''No sign-in code found or code expired''))
      \<and> (case sb' of AtLookup \<Rightarrow> 1 | _ \<Rightarrow> 0) \<le> count_list sch Second"
      using Cons.prems(4)
    proof (elim disjE)
      assume "sb = AtLookup"
      with step Cons.prems ne show ?thesis
        by (auto simp: step_lookup_gone Second)
    next
      assume "sb = Finished (JSON_error StatusBadRequest ''No sign-in code found or code expired'')"
      with step Cons.prems show ?thesis
        by (auto simp: step_finished Second)
    qed
    have "interleave (c # sch) (ea, Some req) (eb, Some req) (sa, sb, r)
        = interleave sch (ea, Some req) (eb, Some req) (sa, sb', r')"
      using step Second by simp
    moreover have "(case sa of AtStore \<Rightarrow> 2 | AtSign _ \<Rightarrow> 1 | _ \<Rightarrow> 0) \<le> count_list sch First"
      using Cons.prems(5) Second by simp
    ultimately show ?thesis
      using Cons.IH [of r' sa sb'] inv Cons.prems(3) by simp
  qed
qed

text \<open>
  C4 (of two concurrent VerifySignIn calls with the same valid code, exactly one
  succeeds). The handler reads the code with \<open>GetValue\<close> and removes it with a separate
  \<open>DeleteKey\<close>; in the schedule where both lookups come first, both callers succeed
  (\<open>concurrent_VerifySignIn_both_succeed\<close> above). What holds, on a store whose calls
  do not fail, for the schedules in which one caller has done its lookup and its delete
  before the other caller's lookup, whatever the order of the remaining steps (each caller
  is given enough steps to finish): the second caller is rejected with 400, and the first
  gets the answer it gets alone, the token, or 500 when signing the token fails. So at most
  one caller succeeds, and exactly one when the token can be signed.
\<close>

theorem concurrent_VerifySignIn_without_race:
  assumes "verify_req.Email req \<noteq> ''''" and "Code req \<noteq> ''''"
    and "kv r (signInCodeKey (verify_req.Email req)) = Some (Code req, d)" and "faults r = []"
    and "2 \<le> count_list sch First" and "1 \<le> count_list sch Second"
  shows "fst (interleave (First # First # sch) (ea, Some req) (eb, Some req) (AtLookup, AtLookup, r))
           = Finished (if snd (GenerateJWT ea (randomToken ea 16))
                       then JSON_error StatusInternalServerError ''Could not create token''
                       else \<lparr>Status = StatusOK, Body = TokenJSON (fst (GenerateJWT ea (randomToken ea 16)))\<rparr>)
    \<and> fst (snd (interleave (First # First # sch) (ea, Some req) (eb, Some req) (AtLookup, AtLookup, r)))
           = Finished (JSON_error StatusBadRequest ''No sign-in code found or code expired'')"
proof -
  have s1: "verify_step ea (Some req) AtLookup r = (AtDelete, r)"
    using assms by (simp add: verify_step_def GetValue_eq call_fails_def)
  have s2: "verify_step ea (Some req) AtDelete r
      = (AtStore, r\<lparr>kv := (kv r)(signInCodeKey (verify_req.Email req) := None)\<rparr>)"
    using assms by (simp add: verify_step_def DeleteKey_eq call_fails_def)
  have "interleave (First # First # sch) (ea, Some req) (eb, Some req) (AtLookup, AtLookup, r)
      = interleave sch (ea, Some req) (eb, Some req)
          (AtStore, AtLookup, r\<lparr>kv := (kv r)(signInCodeKey (verify_req.Email req) := None)\<rparr>)"
    by (simp add: s1 s2)
  then show ?thesis
    using interleave_after_delete [OF assms(1,2) refl,
        of "r\<lparr>kv := (kv r)(signInCodeKey (verify_req.Email req) := None)\<rparr>" AtStore ea AtLookup sch eb]
      assms(4-6)
    by simp
qed

theorem concurrent_VerifySignIn_without_race_witness:
  "fst (interleave [First, First, Second, First, Second, First, Second]
          (toy_env, Some oneuse_req) (toy_env2, Some oneuse_req) (AtLookup, AtLookup, code_store []))
     = Finished \<lparr>Status = StatusOK, Body = TokenJSON ''v1.AAAAAAAAAAAAAAAAAAAAAA''\<rparr>
   \<and> fst (snd (interleave [First, First, Second, First, Second, First, Second]
          (toy_env, Some oneuse_req) (toy_env2, Some oneuse_req) (AtLookup, AtLookup, code_store [])))
     = Finished (JSON_error StatusBadRequest ''No sign-in code found or code expired'')"
  using concurrent_VerifySignIn_without_race [where req = oneuse_req and ea = toy_env and eb = toy_env2
      and r = "code_store []" and d = 300 and sch = "[Second, First, Second, First, Second]"]
  by (simp add: oneuse_req_def code_store_def signInCodeKey_def toy_env_def GenerateJWT_def
      randomToken_def user_secret_def)


lemma digit_char_is_digit: "d < 10 \<Longrightarrow> is_digit (digit_char d)"
  unfolding is_digit_def digit_char_def by (rule nth_mem) simp

lemma itoa_digits: "list_all is_digit (itoa n)"
proof (induction n rule: itoa.induct)
  case (1 n)
  show ?case
  proof (cases "n < 10")
    case True
    then show ?thesis by (subst itoa.simps) (simp add: digit_char_is_digit)
  next
    case False
    with 1 show ?thesis by (subst itoa.simps) (simp add: digit_char_is_digit)
  qed
qed

lemma itoa_length: "n < 10 ^ k \<Longrightarrow> 0 < k \<Longrightarrow> length (itoa n) \<le> k"
proof (induction n arbitrary: k rule: itoa.induct)
  case (1 n)
  show ?case
  proof (cases "n < 10")
    case True
    with 1 show ?thesis by (subst itoa.simps) simp
  next
    case False
    then obtain j where k: "k = Suc j" "0 < j"
      using 1(2,3) by (cases k; cases "k - 1") auto
    with 1(2) have "n div 10 < 10 ^ j"
      by (simp add: less_mult_imp_div_less mult.commute)
    with 1(1) [OF False this] k False show ?thesis
      by (subst itoa.simps) simp
  qed
qed

lemma is_digit_zero: "is_digit (CHR 0x30)"
  by (simp add: is_digit_def)

lemma pad_zeros_digits: "list_all is_digit s \<Longrightarrow> list_all is_digit (pad_zeros w s)"
  by (auto simp: pad_zeros_def list_all_iff is_digit_zero)

lemma pad_zeros_length: "length s \<le> w \<Longrightarrow> length (pad_zeros w s) = w"
  by (simp add: pad_zeros_def)

lemma Sprintf_06d_six_digits:
  assumes "0 \<le> n" and "n < 1000000"
  shows "six_digits (Sprintf_06d n)"
proof -
  have "nat n < 10 ^ 6" using assms by simp
  then have "length (itoa (nat n)) \<le> 6" by (rule itoa_length) simp
  then show ?thesis
    using assms itoa_digits [of "nat n"]
    by (simp add: Sprintf_06d_def six_digits_def pad_zeros_digits pad_zeros_length)
qed

lemma generateSixDigitCode_random_path:
  assumes "rand_Read e 3 = Some b"
  shows "six_digits (generateSixDigitCode e)"
proof -
  let ?x = "push_bit 16 (uint (b ! 0)) OR push_bit 8 (uint (b ! 1)) OR uint (b ! 2)"
  have "0 \<le> ?x" by simp
  then have "0 \<le> ?x smod 1000000" "?x smod 1000000 < 1000000"
    by (simp_all add: smod_int_compares)
  then show ?thesis
    using assms by (simp add: generateSixDigitCode_def Sprintf_06d_six_digits)
qed

lemma generateSixDigitCode_fallback_path:
  assumes "rand_Read e 3 = None" and "0 \<le> sint (UnixNano e)"
  shows "six_digits (generateSixDigitCode e)"
proof -
  have "0 \<le> sint (UnixNano e) smod 1000000" "sint (UnixNano e) smod 1000000 < 1000000"
    using assms(2) by (simp_all add: smod_int_compares)
  then show ?thesis
    using assms by (simp add: generateSixDigitCode_def Sprintf_06d_six_digits)
qed


lemma replicate_numeral: "replicate (numeral v) x = x # replicate (numeral v - 1) x"
  by (simp add: numeral_eq_Suc)

lemma minus_00001_not_six_digits: "\<not> six_digits ''-00001''"
  by (simp add: six_digits_def is_digit_def)

lemma generateSixDigitCode_before_epoch:
  "generateSixDigitCode (toy_env\<lparr>UnixNano := - 1\<rparr>) = ''-00001''
   \<and> \<not> six_digits (generateSixDigitCode (toy_env\<lparr>UnixNano := - 1\<rparr>))"
proof -
  have "generateSixDigitCode (toy_env\<lparr>UnixNano := - 1\<rparr>) = ''-00001''"
    by (simp add: generateSixDigitCode_def rand_Read_def toy_env_def Sprintf_06d_def smod_int_alt_def
        pad_zeros_def itoa.simps digit_char_def replicate_numeral)
  then show ?thesis
    by (simp only: minus_00001_not_six_digits simp_thms)
qed

text \<open>
  C8 (generateSixDigitCode returns a string of exactly six decimal digits, zero-padded
  on the left). With the three random bytes the number is a non-negative 24-bit value, and
  its remainder by 1000000 printed with \<open>%06d\<close> has six digits. When the random source
  fails, the code is formatted from \<open>time.Now().UnixNano() % 1000000\<close>, a remainder of a
  signed 64-bit number that Go truncates towards zero: it has six digits for a clock that
  is not before the Unix epoch, which is the hypothesis of the theorem. (A reading before
  the epoch, which a running system does not give, would print a sign and five digits:
  \<open>generateSixDigitCode_before_epoch\<close> above.)
\<close>

theorem generateSixDigitCode_six_digits:
  assumes "rand_Read e 3 = None \<longrightarrow> 0 \<le> sint (UnixNano e)"
  shows "six_digits (generateSixDigitCode e)"
proof (cases "rand_Read e 3")
  case None
  with assms show ?thesis
    by (simp add: generateSixDigitCode_fallback_path)
next
  case (Some b)
  then show ?thesis
    by (rule generateSixDigitCode_random_path)
qed

theorem generateSixDigitCode_six_digits_witness:
  "six_digits (generateSixDigitCode toy_env)
   \<and> six_digits (generateSixDigitCode (toy_env\<lparr>RandRead := (\<lambda>n. Some [1, 2, 3])\<rparr>))"
  using generateSixDigitCode_six_digits [of toy_env]
    generateSixDigitCode_six_digits [of "toy_env\<lparr>RandRead := (\<lambda>n. Some [1, 2, 3])\<rparr>"]
  by (simp add: toy_env_def rand_Read_def)

subsection \<open>The pattern of an email address\<close>












subsection \<open>The relational store\<close>

lemma next_failure_snd: "snd (next_failure d) = d\<lparr>failures := tl (failures d)\<rparr>"
  by (simp add: next_failure_def split: list.splits)

lemma next_failure_cases:
  "next_failure d = (False, d\<lparr>failures := tl (failures d)\<rparr>)
   \<or> next_failure d = (True, d\<lparr>failures := tl (failures d)\<rparr>)"
  by (simp add: next_failure_def split: list.splits)

lemma Preload_First_snd: "snd (Preload_First i d) = d\<lparr>failures := tl (failures d)\<rparr>"
  by (simp add: Preload_First_def next_failure_def split: list.splits option.splits)

lemma Preload_First_found:
  assumes "Preload_First i d = (Inr s, d')"
  shows "int (Subscriber.ID s) = i \<and> Subscriber.ID s \<in> set (map Subscriber.ID (subscribers d))"
proof -
  from assms obtain row where "find (\<lambda>s. int (Subscriber.ID s) = i) (subscribers d) = Some row"
    and "s = Preload_SubscriberTypes (snd (next_failure d)) row"
    by (auto simp: Preload_First_def next_failure_def split: list.splits option.splits if_splits)
  then show ?thesis
    by (auto simp: find_Some_iff Preload_SubscriberTypes_def)
qed


























subsection \<open>Validation\<close>





lemmas store_defs = UpdateSubscriber_def save_and_reload_def Save_def Save_Associations_def
  upsert_type_def Create_SubscriberTypes_def next_type_id_def stamp_type_def
  Delete_SubscriberTypes_Where_def Preload_First_def Preload_SubscriberTypes_def next_failure_def
  subscriber_type_enum_def

lemma Atoi_1: "Atoi ''1'' = Some 1"
  by (simp add: Atoi_def is_digit_def digit_val_def)



subsection \<open>The scenarios of the repository's tests\<close>

lemmas pattern_defs = validateSubscriberFields_def MatchString_def emailRegex_def OneOrMore_def
  Lit_def letter_def alnum_def in_class_def TrimSpace_def trim_prefixes.simps white_space_def

lemma test_CreateSubscriber_with_types:
  "fst (CreateSubscriber (Some (body ''john@example.com'' ''John'' (Some [''shopper'', ''donor'']))) empty_db)
     = \<lparr>Status = StatusCreated,
        Body = SubscriberJSON
          \<lparr>Subscriber.ID = 1, Email = ''john@example.com'', Name = ''John'',
           SubscriberTypes = Some
             [\<lparr>SubscriberType.ID = 1, SubscriberID = 1, Name = ''shopper'', CreatedAt = 200, UpdatedAt = 200\<rparr>,
              \<lparr>SubscriberType.ID = 2, SubscriberID = 1, Name = ''donor'', CreatedAt = 200, UpdatedAt = 200\<rparr>],
           CreatedAt = 200, UpdatedAt = 200\<rparr>\<rparr>"
proof -
  have "validateSubscriberFields (body ''john@example.com'' ''John'' (Some [''shopper'', ''donor''])) = None"
    by (simp add: pattern_defs body_def)
  then show ?thesis
    by (simp add: CreateSubscriber_def Create_Subscriber_def store_defs body_def empty_db_def Let_def)
qed

lemma test_CreateSubscriber_invalid_email:
  "fst (CreateSubscriber (Some (body ''notanemail'' ''John'' None)) empty_db)
     = JSON_error StatusBadRequest ''invalid or missing email''"
  by (simp add: CreateSubscriber_def pattern_defs body_def)

lemma test_UpdateSubscriber_success:
  "(case UpdateSubscriber ''1'' (Some (body ''new-email@example.com'' ''New Name'' (Some [''developer''])))
           (snd (Create_Subscriber (body ''old-email@example.com'' ''Old Name'' None) empty_db)) of
      (resp, d) \<Rightarrow>
        Status resp = StatusOK
        \<and> map Subscriber.Email (subscribers d) = [''new-email@example.com'']
        \<and> map Subscriber.Name (subscribers d) = [''New Name'']
        \<and> map SubscriberType.Name (subscriber_types d) = [''developer''])"
proof -
  have "validateSubscriberFields (body ''new-email@example.com'' ''New Name'' (Some [''developer''])) = None"
    by (simp add: pattern_defs body_def)
  moreover have "Create_Subscriber (body ''old-email@example.com'' ''Old Name'' None) empty_db
    = (Inr \<lparr>Subscriber.ID = 1, Email = ''old-email@example.com'', Name = ''Old Name'',
             SubscriberTypes = None, CreatedAt = 200, UpdatedAt = 200\<rparr>,
       \<lparr>subscribers = [\<lparr>Subscriber.ID = 1, Email = ''old-email@example.com'', Name = ''Old Name'',
             SubscriberTypes = None, CreatedAt = 200, UpdatedAt = 200\<rparr>], subscriber_types = [],
        subscribers_id_seq = 1, subscriber_types_id_seq = 0, clock = 200, failures = []\<rparr>)"
    by (simp add: Create_Subscriber_def store_defs body_def empty_db_def Let_def)
  ultimately show ?thesis
    by (simp add: store_defs Atoi_1 body_def Let_def)
qed

subsection \<open>UpdateSubscriber and the rows of subscriber_types\<close>

lemma valid_alice_update: "validateSubscriberFields (alice_update ts) = None"
  by (simp add: validateSubscriberFields_def alice_update_def MatchString_def emailRegex_def OneOrMore_def
      Lit_def letter_def alnum_def in_class_def TrimSpace_def trim_prefixes.simps white_space_def)

lemma UpdateSubscriber_alice_driver:
  "subscriber_types (snd (UpdateSubscriber ''1'' (Some (alice_update (Some [driver_type sid]))) two_subscribers))
     = [donor_row,
        \<lparr>SubscriberType.ID = 4, SubscriberID = 1, Name = ''driver'', CreatedAt = 200, UpdatedAt = 200\<rparr>,
        shopper_row, business_row]
   \<and> Status (fst (UpdateSubscriber ''1'' (Some (alice_update (Some [driver_type sid]))) two_subscribers))
     = StatusOK"
  by (simp add: store_defs Atoi_1 valid_alice_update [unfolded alice_update_def]
      two_subscribers_def alice_update_def driver_type_def
      shopper_row_def business_row_def donor_row_def Let_def)




lemma upsert_type_same:
  assumes "distinct (map SubscriberType.ID rows)" and "c \<in> set rows"
    and "SubscriberType.ID c \<noteq> 0" and "SubscriberID c = k"
  shows "upsert_type (stamp_type now (c\<lparr>SubscriberID := k\<rparr>)) (rows, n) = (rows, n)"
proof -
  let ?c = "stamp_type now (c\<lparr>SubscriberID := k\<rparr>)"
  have id: "SubscriberType.ID ?c = SubscriberType.ID c" and sid: "SubscriberID ?c = k"
    by (simp_all add: stamp_type_def)
  have "r\<lparr>SubscriberID := k\<rparr> = r" if "r \<in> set rows" and "SubscriberType.ID r = SubscriberType.ID c" for r
  proof -
    from assms(1,2) that have "r = c"
      by (meson distinct_map inj_onD)
    with assms(4) show ?thesis
      by simp
  qed
  then have same: "map (\<lambda>r. if SubscriberType.ID r = SubscriberType.ID c then r\<lparr>SubscriberID := k\<rparr> else r) rows = rows"
    by (simp add: map_idI)
  have mem: "SubscriberType.ID c \<in> SubscriberType.ID ` set rows"
    using assms(2) by simp
  show ?thesis
    using assms(3) by (simp add: upsert_type_def next_type_id_def id sid same mem cong: if_cong)
qed

lemma fold_upsert_type_same:
  assumes "distinct (map SubscriberType.ID rows)" and "set cs \<subseteq> set rows"
    and "\<forall>c\<in>set cs. SubscriberType.ID c \<noteq> 0 \<and> SubscriberID c = k"
  shows "fold upsert_type (map (\<lambda>c. stamp_type now (c\<lparr>SubscriberID := k\<rparr>)) cs) (rows, n) = (rows, n)"
  using assms(2,3)
proof (induction cs)
  case Nil
  show ?case by simp
next
  case (Cons c cs)
  then show ?case
    using upsert_type_same [OF assms(1), of c k now n] by simp
qed

lemma UpdateSubscriber_absent_types:
  assumes "distinct (map SubscriberType.ID (subscriber_types d))"
    and "0 \<notin> set (map SubscriberType.ID (subscriber_types d))"
    and "0 \<notin> set (map Subscriber.ID (subscribers d))"
    and "SubscriberTypes u = None"
  shows "subscriber_types (snd (UpdateSubscriber p (Some u) d)) = subscriber_types d"
proof (cases "Atoi p")
  case None
  then show ?thesis
    by (simp add: UpdateSubscriber_def)
next
  case i: (Some i)
  obtain res d1 where pf: "Preload_First i d = (res, d1)"
    by (cases "Preload_First i d")
  then have d1: "d1 = d\<lparr>failures := tl (failures d)\<rparr>"
    using Preload_First_snd [of i d] by simp
  show ?thesis
  proof (cases res)
    case (Inl e)
    with i pf d1 show ?thesis
      by (simp add: UpdateSubscriber_def)
  next
    case (Inr found)
    with pf have k: "Subscriber.ID found \<noteq> 0"
      using Preload_First_found [of i d found d1] assms(3) by auto
    from pf Inr have ch: "SubscriberTypes found
        = Some (filter (\<lambda>t. SubscriberID t = Subscriber.ID found) (subscriber_types d))"
      by (auto simp: Preload_First_def next_failure_def Preload_SubscriberTypes_def
          split: list.splits option.splits if_splits)
    let ?ex = "found\<lparr>Subscriber.Email := Subscriber.Email u, Subscriber.Name := Subscriber.Name u\<rparr>"
    have assoc: "subscriber_types (snd (Save_Associations (Subscriber.ID found) (SubscriberTypes ?ex) d'))
        = subscriber_types d" if "subscriber_types d' = subscriber_types d" for d'
    proof -
      let ?cs = "filter (\<lambda>t. SubscriberID t = Subscriber.ID found) (subscriber_types d)"
      have "fold upsert_type (map (\<lambda>c. stamp_type (clock d') (c\<lparr>SubscriberID := Subscriber.ID found\<rparr>)) ?cs)
          (subscriber_types d, subscriber_types_id_seq d') = (subscriber_types d, subscriber_types_id_seq d')"
        using assms(1,2) by (intro fold_upsert_type_same) auto
      then show ?thesis
        using that by (simp add: Save_Associations_def ch Let_def)
    qed
    have save: "subscriber_types (snd (Save ?ex d1)) = subscriber_types d"
    proof -
      obtain f d2 where nf: "next_failure d1 = (f, d2)"
        by (cases "next_failure d1")
      then have d2: "subscriber_types d2 = subscriber_types d"
        using next_failure_snd [of d1] d1 by simp
      define rows where "rows = (if Subscriber.ID ?ex \<in> set (map Subscriber.ID (subscribers d2))
          then map (\<lambda>r. if Subscriber.ID r = Subscriber.ID ?ex
                          then ?ex\<lparr>SubscriberTypes := None, Subscriber.UpdatedAt := clock d2\<rparr> else r) (subscribers d2)
          else subscribers d2 @ [?ex\<lparr>SubscriberTypes := None, Subscriber.UpdatedAt := clock d2\<rparr>])"
      obtain e d3 where sa: "Save_Associations (Subscriber.ID found) (SubscriberTypes ?ex) (d2\<lparr>subscribers := rows\<rparr>) = (e, d3)"
        by (cases "Save_Associations (Subscriber.ID found) (SubscriberTypes ?ex) (d2\<lparr>subscribers := rows\<rparr>)")
      with assoc [of "d2\<lparr>subscribers := rows\<rparr>"] d2 have d3: "subscriber_types d3 = subscriber_types d"
        by simp
      have "snd (Save ?ex d1) = d2 \<or> snd (Save ?ex d1) = d3"
        using k sa by (cases e) (simp_all add: Save_def nf Let_def rows_def)
      with d2 d3 show ?thesis
        by auto
    qed
    have tail: "subscriber_types (snd (save_and_reload ?ex d1)) = subscriber_types d"
    proof -
      obtain e d2 where sv: "Save ?ex d1 = (e, d2)"
        by (cases "Save ?ex d1")
      have "subscriber_types (snd (save_and_reload ?ex d1)) = subscriber_types d2"
        using Preload_First_snd [of "int (Subscriber.ID ?ex)" d2]
        by (cases e; cases "Preload_First (int (Subscriber.ID ?ex)) d2";
            cases "fst (Preload_First (int (Subscriber.ID ?ex)) d2)")
          (auto simp: save_and_reload_def sv)
      with save sv show ?thesis
        by simp
    qed
    show ?thesis
    proof (cases "validateSubscriberFields u")
      case (Some err)
      with i pf d1 Inr show ?thesis
        by (simp add: UpdateSubscriber_def)
    next
      case None
      with i pf Inr assms(4) have "snd (UpdateSubscriber p (Some u) d) = snd (save_and_reload ?ex d1)"
        by (simp add: UpdateSubscriber_def Let_def)
      with tail show ?thesis
        by simp
    qed
  qed
qed

text \<open>
  C6 (UpdateSubscriber with a present, non-empty type list deletes the existing
  SubscriberType children of the subscriber and exactly the new list exists afterward;
  with an explicitly empty list none remain; with no list the children are untouched).
  The handler deletes the rows and creates the new ones, and then calls
  \<open>db.Save(&existing)\<close> under the comment "Save subscriber base fields". But
  \<open>existing\<close> was loaded with \<open>Preload("SubscriberTypes")\<close> and still holds the rows
  that were just deleted, and \<open>Save\<close> writes the associations of its argument: the old
  rows are inserted again. The subscriber 1 of the example has the types shopper and
  business. After an update with the list [driver] it has driver, shopper and business;
  after an update with the empty list it has shopper and business. (Without a list in
  the body the children stay as they are: \<open>UpdateSubscriber_absent_types\<close> above.)
\<close>

theorem UpdateSubscriber_old_types_return:
  "Status (fst (UpdateSubscriber ''1'' (Some (alice_update (Some [driver_type 0]))) two_subscribers)) = StatusOK
   \<and> filter (\<lambda>t. SubscriberID t = 1)
        (subscriber_types (snd (UpdateSubscriber ''1'' (Some (alice_update (Some [driver_type 0]))) two_subscribers)))
     = [\<lparr>SubscriberType.ID = 4, SubscriberID = 1, Name = ''driver'', CreatedAt = 200, UpdatedAt = 200\<rparr>,
        shopper_row, business_row]
   \<and> Status (fst (UpdateSubscriber ''1'' (Some (alice_update (Some []))) two_subscribers)) = StatusOK
   \<and> filter (\<lambda>t. SubscriberID t = 1)
        (subscriber_types (snd (UpdateSubscriber ''1'' (Some (alice_update (Some []))) two_subscribers)))
     = [shopper_row, business_row]"
proof -
  have "subscriber_types (snd (UpdateSubscriber ''1'' (Some (alice_update (Some []))) two_subscribers))
      = [donor_row, shopper_row, business_row]
    \<and> Status (fst (UpdateSubscriber ''1'' (Some (alice_update (Some []))) two_subscribers)) = StatusOK"
    by (simp add: store_defs Atoi_1 valid_alice_update [unfolded alice_update_def]
        two_subscribers_def alice_update_def
        shopper_row_def business_row_def donor_row_def Let_def)
  with UpdateSubscriber_alice_driver [of 0] show ?thesis
    by (simp add: shopper_row_def business_row_def donor_row_def)
qed

theorem UpdateSubscriber_old_types_return_witness:
  "length (filter (\<lambda>t. SubscriberID t = 1)
        (subscriber_types (snd (UpdateSubscriber ''1'' (Some (alice_update (Some [driver_type 0]))) two_subscribers))))
     = 3"
  using UpdateSubscriber_old_types_return by simp

end
